theory Spec2Isabelle
  imports Main "HOL-Library.Word"
begin

section \<open>The WhisperX transcription service (whisperx_service.py)\<close>

text \<open>
  A shallow embedding of class \<open>WhisperXService\<close>. The service object is a record of
  its four attributes; every method takes the object and returns it updated. The
  external libraries (\<open>torch\<close>, \<open>whisperx\<close>, \<open>os.path\<close>, \<open>gc\<close>) are a record of
  outcomes, one field per call the source makes, so that every theorem quantifies over
  everything those libraries may answer, a raised exception included. Calls that act on
  the outside world are appended to the ghost field \<open>calls\<close> of the object, in the
  order the source makes them.
\<close>

subsection \<open>Exceptions\<close>

text \<open>
  The handlers of the source tell \<open>ImportError\<close> from every other instance of
  \<open>Exception\<close>; the argument is \<open>str(e)\<close>. Whatever a library call raises here is
  an instance of \<open>Exception\<close>. \<open>KeyboardInterrupt\<close> and \<open>SystemExit\<close> are not:
  they pass every \<open>except Exception\<close> of the source and leave its methods
  (\<open>main\<close> catches the interrupt itself). They are outside this model, and every
  theorem below about what is raised is about instances of \<open>Exception\<close> only.
\<close>

datatype exc = ImportError string | Exception string

subsection \<open>Data\<close>

text \<open>The three values \<open>"cuda"\<close>, \<open>"mps"\<close>, \<open>"cpu"\<close> that \<open>self.device\<close> is ever assigned.\<close>

datatype device = Cuda | Mps | Cpu

text \<open>Opaque objects returned by the inference library. Model objects are truthy;
  the alignment metadata is a dict, truthy when it has an entry.\<close>

datatype model_handle = ModelHandle nat
datatype align_handle = AlignHandle nat
datatype align_meta = AlignMeta (meta_entries: "(string \<times> string) list")

text \<open>A segment dict: \<open>seg_text\<close> is \<open>None\<close> when the key \<open>"text"\<close> is absent.\<close>

record segment =
  seg_text :: "string option"
  seg_start :: int
  seg_end :: int

text \<open>The dict returned by \<open>model.transcribe\<close> and by \<open>whisperx.align\<close>; a field is
  \<open>None\<close> when its key is absent.\<close>

record tr_output =
  out_segments :: "segment list option"
  out_language :: "string option"

text \<open>The two shapes of dict that \<open>transcribe_audio\<close> returns: \<open>success\<close> False with
  \<open>error\<close>, or \<open>success\<close> True with \<open>text\<close>, \<open>segments\<close> (a count), \<open>language\<close>,
  \<open>model_size\<close> and \<open>device\<close>.\<close>

datatype tr_result =
    Failure string
  | Success string nat string string "device option"

fun success :: "tr_result \<Rightarrow> bool" where
  "success (Failure _) = False"
| "success (Success _ _ _ _ _) = True"

fun device_of :: "tr_result \<Rightarrow> device option" where
  "device_of (Failure _) = None"
| "device_of (Success _ _ _ _ d) = d"

text \<open>External calls with an effect, as recorded in \<open>calls\<close>.\<close>

datatype event =
    EvLoadModel string "device option"
  | EvLoadAlign string "device option"
  | EvLoadAudio string
  | EvTranscribe model_handle nat
  | EvAlign "device option"
  | EvGcCollect
  | EvCudaEmptyCache
  | EvCudaSynchronize
  | EvMpsEmptyCache

record service =
  model :: "model_handle option"
  align_model :: "align_handle option"
  metadata :: "align_meta option"
  device :: "device option"
  calls :: "event list"

text \<open>
  What the outside world answers. A field of type \<open>exc option\<close> is a call made for
  its effect only: \<open>None\<close> is a normal return. \<open>cuda_total_memory\<close> is
  \<open>torch.cuda.get_device_properties(0).total_memory\<close>, a C \<open>size_t\<close>.
\<close>

record env =
  path_exists :: "string \<Rightarrow> bool"
  getsize :: "string \<Rightarrow> exc + nat"
  import_torch :: "exc option"
  import_whisperx :: "exc option"
  cuda_is_available :: "exc + bool"
  cuda_get_device_name :: "exc option"
  has_mps_backend :: bool
  mps_is_available :: "exc + bool"
  cuda_total_memory :: "exc + 64 word"
  gc_collect :: "exc option"
  cuda_empty_cache :: "exc option"
  cuda_synchronize :: "exc option"
  mps_has_empty_cache :: bool
  mps_empty_cache :: "exc option"
  wx_load_model :: "string \<Rightarrow> device option \<Rightarrow> exc + model_handle"
  wx_load_align_model :: "string \<Rightarrow> device option \<Rightarrow> exc + (align_handle \<times> align_meta)"
  wx_load_audio :: "string \<Rightarrow> exc + nat list option"
  model_transcribe :: "model_handle \<Rightarrow> nat list \<Rightarrow> nat \<Rightarrow> exc + tr_output"
  wx_align :: "segment list \<Rightarrow> align_handle \<Rightarrow> align_meta \<Rightarrow> nat list \<Rightarrow> device option
                 \<Rightarrow> exc + tr_output"
  model_size_attr :: "model_handle \<Rightarrow> string option"

definition record_call :: "event \<Rightarrow> service \<Rightarrow> service" where
  "record_call ev s = s\<lparr>calls := calls s @ [ev]\<rparr>"

subsection \<open>\<open>_get_optimal_batch_size\<close>\<close>

text \<open>
  \<open>memory_gb = total_memory / 1e9\<close> is a float; for a 64-bit byte count the tests
  \<open>memory_gb > 8\<close> and \<open>memory_gb > 4\<close> hold exactly when the count exceeds
  \<open>8 * 10^9\<close> and \<open>4 * 10^9\<close> (neighbouring doubles near 8 are less than \<open>10^-14\<close>
  apart, a byte is \<open>10^-9\<close>). The bare \<open>except\<close> turns a failed import and a failed
  memory read into 16.
\<close>

definition get_optimal_batch_size :: "env \<Rightarrow> service \<Rightarrow> nat" where
  "get_optimal_batch_size env s =
     (if device s = Some Cuda then
        (case import_torch env of
           Some e \<Rightarrow> 16
         | None \<Rightarrow>
            (case cuda_total_memory env of
               Inl e \<Rightarrow> 16
             | Inr total_memory \<Rightarrow>
                 if unat total_memory > 8 * 10 ^ 9 then 32
                 else if unat total_memory > 4 * 10 ^ 9 then 16
                 else 8))
      else if device s = Some Mps then 8
      else 4)"

subsection \<open>\<open>_extract_text\<close>\<close>

text \<open>
  Characters are 8-bit (\<open>char\<close>): the model covers texts in Latin-1. \<open>is_space\<close> is
  the whitespace that \<open>str.strip()\<close> removes there: tab to carriage return, the four
  separators 0x1C to 0x1F, space, 0x85 and 0xA0.
\<close>

definition is_space :: "char \<Rightarrow> bool" where
  "is_space c =
     (let n = (of_char c :: nat)
      in (9 \<le> n \<and> n \<le> 13) \<or> (28 \<le> n \<and> n \<le> 32) \<or> n = 133 \<or> n = 160)"

definition strip :: "string \<Rightarrow> string" where
  "strip t = rev (dropWhile is_space (rev (dropWhile is_space t)))"

text \<open>\<open>text.startswith(('.', ',', '!', '?', ';', ':'))\<close>\<close>

fun startswith_punct :: "string \<Rightarrow> bool" where
  "startswith_punct [] = False"
| "startswith_punct (c # cs) = (c \<in> set ''.,!?;:'')"

text \<open>One pass of the loop body: \<open>full_text\<close> after the segment.\<close>

definition add_segment :: "string \<Rightarrow> segment \<Rightarrow> string" where
  "add_segment full_text seg =
     (case seg_text seg of
        None \<Rightarrow> full_text
      | Some raw \<Rightarrow>
          if raw = [] then full_text
          else
            (let t = strip raw
             in if t = [] then full_text
                else (if full_text \<noteq> [] \<and> \<not> startswith_punct t
                      then full_text @ '' '' else full_text) @ t))"

fun extract_loop :: "string \<Rightarrow> segment list \<Rightarrow> string" where
  "extract_loop full_text [] = full_text"
| "extract_loop full_text (seg # segs) = extract_loop (add_segment full_text seg) segs"

definition extract_text :: "segment list \<Rightarrow> string" where
  "extract_text segs = strip (extract_loop [] segs)"

subsection \<open>\<open>__init__\<close> and \<open>_setup_device\<close>\<close>

text \<open>
  The body of the \<open>try\<close>: the first component is the exception that leaves it, if
  any. The f-string of the first log line calls \<open>torch.cuda.get_device_name()\<close>
  after the assignment to \<open>self.device\<close>.
\<close>

definition setup_device_try :: "env \<Rightarrow> service \<Rightarrow> exc option \<times> service" where
  "setup_device_try env s =
     (case import_torch env of
        Some e \<Rightarrow> (Some e, s)
      | None \<Rightarrow>
         (case cuda_is_available env of
            Inl e \<Rightarrow> (Some e, s)
          | Inr cuda \<Rightarrow>
              if cuda then (cuda_get_device_name env, s\<lparr>device := Some Cuda\<rparr>)
              else if has_mps_backend env then
                (case mps_is_available env of
                   Inl e \<Rightarrow> (Some e, s)
                 | Inr mps \<Rightarrow>
                     if mps then (None, s\<lparr>device := Some Mps\<rparr>)
                     else (None, s\<lparr>device := Some Cpu\<rparr>))
              else (None, s\<lparr>device := Some Cpu\<rparr>)))"

text \<open>\<open>except ImportError\<close>: any other exception leaves the method.\<close>

definition setup_device :: "env \<Rightarrow> service \<Rightarrow> exc option \<times> service" where
  "setup_device env s =
     (case setup_device_try env s of
        (Some (ImportError m), s') \<Rightarrow> (None, s'\<lparr>device := Some Cpu\<rparr>)
      | (Some (Exception m), s') \<Rightarrow> (Some (Exception m), s')
      | (None, s') \<Rightarrow> (None, s'))"

definition init_service :: "env \<Rightarrow> exc + service" where
  "init_service env =
     (case setup_device env
             \<lparr>model = None, align_model = None, metadata = None, device = None, calls = []\<rparr> of
        (Some e, s) \<Rightarrow> Inl e
      | (None, s) \<Rightarrow> Inr s)"

subsection \<open>\<open>load_model\<close>\<close>

definition device_to_use :: "service \<Rightarrow> device option" where
  "device_to_use s = (if device s = Some Mps then Some Cpu else device s)"

text \<open>The inner \<open>try\<close> around \<open>whisperx.load_align_model\<close>.\<close>

definition load_align :: "env \<Rightarrow> device option \<Rightarrow> service \<Rightarrow> service" where
  "load_align env d s =
     (let s1 = record_call (EvLoadAlign ''en'' d) s
      in case wx_load_align_model env ''en'' d of
           Inl e \<Rightarrow> s1\<lparr>align_model := None, metadata := None\<rparr>
         | Inr (a, m) \<Rightarrow> s1\<lparr>align_model := Some a, metadata := Some m\<rparr>)"

definition load_model_try :: "env \<Rightarrow> service \<Rightarrow> string \<Rightarrow> (exc + bool) \<times> service" where
  "load_model_try env s model_size =
     (case import_whisperx env of
        Some e \<Rightarrow> (Inl e, s)
      | None \<Rightarrow>
         (let d = device_to_use s;
              s1 = record_call (EvLoadModel model_size d) s
          in case wx_load_model env model_size d of
               Inl e \<Rightarrow> (Inl e, s1)
             | Inr h \<Rightarrow> (Inr True, load_align env d (s1\<lparr>model := Some h\<rparr>))))"

definition load_model :: "env \<Rightarrow> service \<Rightarrow> string \<Rightarrow> bool \<times> service" where
  "load_model env s model_size =
     (case load_model_try env s model_size of
        (Inl e, s') \<Rightarrow> (False, s')
      | (Inr b, s') \<Rightarrow> (b, s'))"

subsection \<open>\<open>cleanup_models\<close>\<close>

text \<open>The statements after \<open>gc.collect()\<close>.\<close>

definition clear_cache :: "env \<Rightarrow> service \<Rightarrow> exc option \<times> service" where
  "clear_cache env s =
     (if device s = Some Cuda then
        (case cuda_is_available env of
           Inl e \<Rightarrow> (Some e, s)
         | Inr cuda \<Rightarrow>
             if cuda then
               (let s1 = record_call EvCudaEmptyCache s
                in case cuda_empty_cache env of
                     Some e \<Rightarrow> (Some e, s1)
                   | None \<Rightarrow> (cuda_synchronize env, record_call EvCudaSynchronize s1))
             else (None, s))
      else if device s = Some Mps \<and> has_mps_backend env then
        (case mps_is_available env of
           Inl e \<Rightarrow> (Some e, s)
         | Inr mps \<Rightarrow>
             if mps \<and> mps_has_empty_cache env
             then (mps_empty_cache env, record_call EvMpsEmptyCache s)
             else (None, s))
      else (None, s))"

text \<open>The body of the \<open>try\<close>, \<open>import torch\<close> first.\<close>

definition cleanup_try :: "env \<Rightarrow> service \<Rightarrow> exc option \<times> service" where
  "cleanup_try env s =
     (case import_torch env of
        Some e \<Rightarrow> (Some e, s)
      | None \<Rightarrow>
         (let s1 = (if model s \<noteq> None then s\<lparr>model := None\<rparr> else s);
              s2 = (if align_model s1 \<noteq> None then s1\<lparr>align_model := None\<rparr> else s1);
              s3 = (if metadata s2 \<noteq> None then s2\<lparr>metadata := None\<rparr> else s2);
              s4 = record_call EvGcCollect s3
          in case gc_collect env of
               Some e \<Rightarrow> (Some e, s4)
             | None \<Rightarrow> clear_cache env s4))"

text \<open>\<open>except Exception\<close> logs and returns: the first component is the exception the
  caller sees.\<close>

definition cleanup_models :: "env \<Rightarrow> service \<Rightarrow> exc option \<times> service" where
  "cleanup_models env s =
     (case cleanup_try env s of
        (Some e, s') \<Rightarrow> (None, s')
      | (None, s') \<Rightarrow> (None, s'))"

text \<open>The state the specification calls EMPTY.\<close>

definition is_empty :: "service \<Rightarrow> bool" where
  "is_empty s = (model s = None \<and> align_model s = None \<and> metadata s = None)"

subsection \<open>\<open>transcribe_audio\<close>\<close>

text \<open>\<open>str(KeyError('segments'))\<close> and the message of calling a method of \<open>None\<close>.\<close>

definition key_error_segments :: string where
  "key_error_segments = CHR 0x27 # ''segments'' @ [CHR 0x27]"

definition none_has_no_transcribe :: string where
  "none_has_no_transcribe =
     CHR 0x27 # ''NoneType'' @ CHR 0x27 # '' object has no attribute '' @
     CHR 0x27 # ''transcribe'' @ [CHR 0x27]"

text \<open>The final \<open>return\<close>: \<open>result["segments"]\<close> raises when the key is absent.\<close>

definition assemble_result ::
  "env \<Rightarrow> service \<Rightarrow> model_handle \<Rightarrow> tr_output \<Rightarrow> exc + tr_result" where
  "assemble_result env s h result =
     (case out_segments result of
        None \<Rightarrow> Inl (Exception key_error_segments)
      | Some segs \<Rightarrow>
          Inr (Success (extract_text segs) (length segs)
                 (case out_language result of None \<Rightarrow> ''en'' | Some l \<Rightarrow> l)
                 (case model_size_attr env h of None \<Rightarrow> ''unknown'' | Some m \<Rightarrow> m)
                 (device s)))"

text \<open>\<open>if self.align_model and self.metadata\<close>, with its own \<open>try\<close>.\<close>

definition apply_alignment ::
  "env \<Rightarrow> service \<Rightarrow> nat list \<Rightarrow> tr_output \<Rightarrow> segment list \<Rightarrow> tr_output \<times> service" where
  "apply_alignment env s audio result segs =
     (case align_model s of
        None \<Rightarrow> (result, s)
      | Some a \<Rightarrow>
         (case metadata s of
            None \<Rightarrow> (result, s)
          | Some m \<Rightarrow>
              if meta_entries m = [] then (result, s)
              else
                (let s1 = record_call (EvAlign (device s)) s
                 in case wx_align env segs a m audio (device s) of
                      Inl e \<Rightarrow> (result, s1)
                    | Inr aligned \<Rightarrow> (aligned, s1))))"

text \<open>From the batch size to the \<open>return\<close>.\<close>

definition run_inference ::
  "env \<Rightarrow> service \<Rightarrow> nat list \<Rightarrow> (exc + tr_result) \<times> service" where
  "run_inference env s audio =
     (let batch_size = get_optimal_batch_size env s
      in case model s of
           None \<Rightarrow> (Inl (Exception none_has_no_transcribe), s)
         | Some h \<Rightarrow>
            (let s1 = record_call (EvTranscribe h batch_size) s
             in case model_transcribe env h audio batch_size of
                  Inl e \<Rightarrow> (Inl e, s1)
                | Inr result \<Rightarrow>
                   (case out_segments result of
                      None \<Rightarrow> (Inr (Failure ''No speech detected in audio''), s1)
                    | Some segs \<Rightarrow>
                        if segs = [] then (Inr (Failure ''No speech detected in audio''), s1)
                        else
                          (case apply_alignment env s1 audio result segs of
                             (result', s2) \<Rightarrow> (assemble_result env s2 h result', s2)))))"

text \<open>From the second \<open>import whisperx\<close> on.\<close>

definition transcribe_loaded ::
  "env \<Rightarrow> service \<Rightarrow> string \<Rightarrow> (exc + tr_result) \<times> service" where
  "transcribe_loaded env s audio_file_path =
     (case import_whisperx env of
        Some e \<Rightarrow> (Inl e, s)
      | None \<Rightarrow>
         (let s1 = record_call (EvLoadAudio audio_file_path) s
          in case wx_load_audio env audio_file_path of
               Inl e \<Rightarrow> (Inl e, s1)
             | Inr None \<Rightarrow> (Inr (Failure ''Could not load audio data''), s1)
             | Inr (Some audio) \<Rightarrow>
                 if audio = [] then (Inr (Failure ''Could not load audio data''), s1)
                 else run_inference env s1 audio))"

text \<open>\<open>if not self.model: if not self.load_model(): ...\<close>: whether a model is held
  afterwards, and the object after the attempt.\<close>

definition ensure_model :: "env \<Rightarrow> service \<Rightarrow> bool \<times> service" where
  "ensure_model env s = (if model s = None then load_model env s ''base'' else (True, s))"

text \<open>The body of the outer \<open>try\<close>.\<close>

definition transcribe_try ::
  "env \<Rightarrow> service \<Rightarrow> string \<Rightarrow> (exc + tr_result) \<times> service" where
  "transcribe_try env s audio_file_path =
     (if \<not> path_exists env audio_file_path
      then (Inr (Failure (''Audio file not found: '' @ audio_file_path)), s)
      else
        (case getsize env audio_file_path of
           Inl e \<Rightarrow> (Inl e, s)
         | Inr file_size \<Rightarrow>
             if file_size = 0 then (Inr (Failure ''Audio file is empty''), s)
             else
               (case ensure_model env s of
                  (loaded, s1) \<Rightarrow>
                    if \<not> loaded then (Inr (Failure ''Failed to load WhisperX model''), s1)
                    else transcribe_loaded env s1 audio_file_path)))"

text \<open>The two handlers of the outer \<open>try\<close>.\<close>

fun on_exception :: "exc \<Rightarrow> tr_result" where
  "on_exception (ImportError m) = Failure ''WhisperX not properly installed''"
| "on_exception (Exception m) = Failure (''Transcription failed: '' @ m)"

text \<open>\<open>Inl\<close> in the result would be an exception reaching the caller.\<close>

definition transcribe_audio ::
  "env \<Rightarrow> service \<Rightarrow> string \<Rightarrow> (exc + tr_result) \<times> service" where
  "transcribe_audio env s audio_file_path =
     (case transcribe_try env s audio_file_path of
        (Inr r, s') \<Rightarrow> (Inr r, s')
      | (Inl e, s') \<Rightarrow> (Inr (on_exception e), s'))"

subsection \<open>The assembler as the specification words it\<close>

text \<open>
  Section 4.5 of the specification: the non-empty trimmed segment texts, joined with a
  single space unless the next one starts with a character of \<open>. , ! ? ; :\<close>. These
  three definitions follow the specification, to be compared with \<open>extract_text\<close>.
\<close>

definition pieces :: "segment list \<Rightarrow> string list" where
  "pieces segs =
     filter (\<lambda>t. t \<noteq> [])
       (concat (map (\<lambda>seg. case seg_text seg of None \<Rightarrow> [] | Some raw \<Rightarrow> [strip raw]) segs))"

fun join_rest :: "string list \<Rightarrow> string" where
  "join_rest [] = []"
| "join_rest (p # ps) = (if startswith_punct p then [] else '' '') @ p @ join_rest ps"

fun join_pieces :: "string list \<Rightarrow> string" where
  "join_pieces [] = []"
| "join_pieces (p # ps) = p @ join_rest ps"

definition assemble_spec :: "segment list \<Rightarrow> string" where
  "assemble_spec segs = join_pieces (pieces segs)"

text \<open>A text with a first and a last character, neither of them whitespace.\<close>

definition trimmed :: "string \<Rightarrow> bool" where
  "trimmed t = (t \<noteq> [] \<and> \<not> is_space (hd t) \<and> \<not> is_space (last t))"

subsection \<open>Reading the record of calls\<close>

text \<open>The calls made between two states of the object.\<close>

definition new_calls :: "service \<Rightarrow> service \<Rightarrow> event list" where
  "new_calls s s' = drop (length (calls s)) (calls s')"

text \<open>The two calls that load something: \<open>whisperx.load_model\<close> and
  \<open>whisperx.load_align_model\<close>.\<close>

fun is_load_call :: "event \<Rightarrow> bool" where
  "is_load_call (EvLoadModel sz d) = True"
| "is_load_call (EvLoadAlign lang d) = True"
| "is_load_call ev = False"

text \<open>What \<open>load_model\<close> asks of the inference library, on the device \<open>d\<close> it uses.\<close>

definition load_calls :: "env \<Rightarrow> string \<Rightarrow> device option \<Rightarrow> event list" where
  "load_calls env model_size d =
     (if import_whisperx env \<noteq> None then []
      else if isl (wx_load_model env model_size d) then [EvLoadModel model_size d]
      else [EvLoadModel model_size d, EvLoadAlign ''en'' d])"

subsection \<open>A concrete world\<close>

text \<open>
  A machine without accelerator where every library call succeeds: \<open>a.wav\<close> holds
  1024 bytes and three samples, \<open>empty.wav\<close> holds nothing, no other file exists; the
  model hears two segments.
\<close>

definition segment_of :: "string \<Rightarrow> segment" where
  "segment_of t = \<lparr>seg_text = Some t, seg_start = 0, seg_end = 0\<rparr>"

definition demo_env :: env where
  "demo_env =
     \<lparr>path_exists = (\<lambda>p. p = ''a.wav'' \<or> p = ''empty.wav''),
      getsize = (\<lambda>p. if p = ''a.wav'' then Inr 1024
                      else if p = ''empty.wav'' then Inr 0
                      else Inl (Exception ''No such file or directory'')),
      import_torch = None,
      import_whisperx = None,
      cuda_is_available = Inr False,
      cuda_get_device_name = None,
      has_mps_backend = True,
      mps_is_available = Inr False,
      cuda_total_memory = Inl (Exception ''Torch not compiled with CUDA enabled''),
      gc_collect = None,
      cuda_empty_cache = None,
      cuda_synchronize = None,
      mps_has_empty_cache = True,
      mps_empty_cache = None,
      wx_load_model = (\<lambda>model_size d. Inr (ModelHandle 1)),
      wx_load_align_model = (\<lambda>lang d. Inr (AlignHandle 2, AlignMeta [(''language'', ''en'')])),
      wx_load_audio = (\<lambda>p. Inr (Some [1, 2, 3])),
      model_transcribe =
        (\<lambda>h audio batch_size.
           Inr \<lparr>out_segments = Some [segment_of ''Hello'', segment_of '', world''], out_language = Some ''en''\<rparr>),
      wx_align =
        (\<lambda>segs a m audio d. Inr \<lparr>out_segments = Some segs, out_language = None\<rparr>),
      model_size_attr = (\<lambda>h. None)\<rparr>"

text \<open>A new object on device \<open>d\<close>, and one that holds all three handles.\<close>

definition fresh :: "device \<Rightarrow> service" where
  "fresh d = \<lparr>model = None, align_model = None, metadata = None, device = Some d, calls = []\<rparr>"

definition holding :: "device \<Rightarrow> service" where
  "holding d =
     \<lparr>model = Some (ModelHandle 1), align_model = Some (AlignHandle 2),
      metadata = Some (AlignMeta [(''language'', ''en'')]), device = Some d, calls = []\<rparr>"

subsection \<open>Conditions on the outside world\<close>

text \<open>The input passes validation: the path exists and \<open>getsize\<close> returns a size
  other than zero.\<close>

definition valid_input :: "env \<Rightarrow> string \<Rightarrow> bool" where
  "valid_input env p =
     (path_exists env p \<and> (case getsize env p of Inl e \<Rightarrow> False | Inr n \<Rightarrow> n \<noteq> 0))"

text \<open>The model-readiness step of \<open>transcribe_audio\<close> ends with handle \<open>h\<close>: it is
  held already, or nothing is held and \<open>load_model\<close> obtains it.\<close>

definition ensured :: "env \<Rightarrow> service \<Rightarrow> model_handle \<Rightarrow> bool" where
  "ensured env s h =
     (model s = Some h
      \<or> (model s = None \<and> import_whisperx env = None
          \<and> wx_load_model env ''base'' (device_to_use s) = Inr h))"

section \<open>Batch sizing\<close>

lemma batch_cuda_readable:
  "device s = Some Cuda \<Longrightarrow> import_torch env = None \<Longrightarrow> cuda_total_memory env = Inr m \<Longrightarrow>
   get_optimal_batch_size env s =
     (if 8 * 10 ^ 9 < unat m then 32 else if 4 * 10 ^ 9 < unat m then 16 else 8)"
  by (simp add: get_optimal_batch_size_def)

lemma batch_cuda_unreadable:
  "device s = Some Cuda \<Longrightarrow> import_torch env \<noteq> None \<or> isl (cuda_total_memory env) \<Longrightarrow>
   get_optimal_batch_size env s = 16"
  by (auto simp: get_optimal_batch_size_def split: option.splits sum.splits)

lemma batch_size_device:
  "device s' = device s \<Longrightarrow> get_optimal_batch_size env s' = get_optimal_batch_size env s"
  by (simp add: get_optimal_batch_size_def)

text \<open>
  C3, as stated, fails: on the primary accelerator (\<open>cuda\<close>) with a memory read that
  raises, the bare \<open>except\<close> of \<open>_get_optimal_batch_size\<close> returns 16, not 8. In
  \<open>demo_env\<close> the read of \<open>total_memory\<close> raises.
\<close>

theorem batch_size_unreadable_is_16:
  "get_optimal_batch_size demo_env (fresh Cuda) = 16
   \<and> get_optimal_batch_size demo_env (fresh Cuda) \<noteq> 8"
  by (simp add: get_optimal_batch_size_def demo_env_def fresh_def)

text \<open>
  C3, amended: the batch size is 32 on \<open>cuda\<close> with more than \<open>8 * 10^9\<close> bytes
  of device memory, 16 with more than \<open>4 * 10^9\<close> and at most \<open>8 * 10^9\<close>, 8 with at
  most \<open>4 * 10^9\<close>, and 16 when \<open>torch\<close> cannot be imported or the memory read
  raises; it is 8 on \<open>mps\<close> and 4 on \<open>cpu\<close>, whatever the memory.
\<close>

theorem batch_size_table:
  "(device s = Some Cuda \<and> import_torch env = None \<and> cuda_total_memory env = Inr m
      \<and> 8 * 10 ^ 9 < unat m \<longrightarrow> get_optimal_batch_size env s = 32)
   \<and> (device s = Some Cuda \<and> import_torch env = None \<and> cuda_total_memory env = Inr m
      \<and> 4 * 10 ^ 9 < unat m \<and> unat m \<le> 8 * 10 ^ 9 \<longrightarrow> get_optimal_batch_size env s = 16)
   \<and> (device s = Some Cuda \<and> import_torch env = None \<and> cuda_total_memory env = Inr m
      \<and> unat m \<le> 4 * 10 ^ 9 \<longrightarrow> get_optimal_batch_size env s = 8)
   \<and> (device s = Some Cuda \<and> (import_torch env \<noteq> None \<or> isl (cuda_total_memory env))
      \<longrightarrow> get_optimal_batch_size env s = 16)
   \<and> (device s = Some Mps \<longrightarrow> get_optimal_batch_size env s = 8)
   \<and> (device s = Some Cpu \<longrightarrow> get_optimal_batch_size env s = 4)"
proof -
  have mps: "device s = Some Mps \<Longrightarrow> get_optimal_batch_size env s = 8"
    by (simp add: get_optimal_batch_size_def)
  have cpu: "device s = Some Cpu \<Longrightarrow> get_optimal_batch_size env s = 4"
    by (simp add: get_optimal_batch_size_def)
  show ?thesis
    using batch_cuda_readable [of s env m] batch_cuda_unreadable [of s env] mps cpu
    by simp
qed

text \<open>C3, witness: one world for each row of the table (10, 8 and 4 GB readable,
  unreadable, \<open>mps\<close>, \<open>cpu\<close>).\<close>

theorem batch_size_table_witness:
  "get_optimal_batch_size (demo_env\<lparr>cuda_total_memory := Inr 10000000000\<rparr>) (fresh Cuda) = 32
   \<and> get_optimal_batch_size (demo_env\<lparr>cuda_total_memory := Inr 8000000000\<rparr>) (fresh Cuda) = 16
   \<and> get_optimal_batch_size (demo_env\<lparr>cuda_total_memory := Inr 4000000000\<rparr>) (fresh Cuda) = 8
   \<and> get_optimal_batch_size demo_env (fresh Cuda) = 16
   \<and> get_optimal_batch_size demo_env (fresh Mps) = 8
   \<and> get_optimal_batch_size demo_env (fresh Cpu) = 4"
  using batch_size_table [of "fresh Cuda" "demo_env\<lparr>cuda_total_memory := Inr 10000000000\<rparr>"
          "10000000000"]
        batch_size_table [of "fresh Cuda" "demo_env\<lparr>cuda_total_memory := Inr 8000000000\<rparr>"
          "8000000000"]
        batch_size_table [of "fresh Cuda" "demo_env\<lparr>cuda_total_memory := Inr 4000000000\<rparr>"
          "4000000000"]
        batch_size_table [of "fresh Cuda" demo_env]
        batch_size_table [of "fresh Mps" demo_env]
        batch_size_table [of "fresh Cpu" demo_env]
  by (simp add: demo_env_def fresh_def)

section \<open>Text assembly\<close>

lemma strip_Nil [simp]: "strip [] = []"
  by (simp add: strip_def)

lemma strip_trimmed: "strip t \<noteq> [] \<Longrightarrow> trimmed (strip t)"
proof -
  assume ne: "strip t \<noteq> []"
  let ?u = "dropWhile is_space t"
  let ?v = "dropWhile is_space (rev ?u)"
  from ne have v: "?v \<noteq> []" by (simp add: strip_def)
  then have hv: "\<not> is_space (hd ?v)" by (rule hd_dropWhile)
  from v have u: "?u \<noteq> []" by (cases "?u = []") simp_all
  then have hu: "\<not> is_space (hd ?u)" by (rule hd_dropWhile)
  have l: "last (strip t) = hd ?v" using v by (simp add: strip_def last_rev)
  have "\<exists>ws. rev ?u = ws @ ?v" by (metis takeWhile_dropWhile_id)
  then obtain ws where ws: "rev ?u = ws @ ?v" ..
  then have "?u = rev ?v @ rev ws" by (metis rev_append rev_rev_ident)
  then have "hd ?u = hd (rev ?v)" using v by (metis hd_append2 rev_is_Nil_conv)
  then have h: "\<not> is_space (hd (strip t))" using hu by (simp add: strip_def)
  show ?thesis using ne h l hv by (simp add: trimmed_def)
qed

lemma strip_id: "trimmed t \<Longrightarrow> strip t = t"
proof -
  assume t: "trimmed t"
  then have a: "dropWhile is_space t = t"
    by (cases t) (auto simp: trimmed_def)
  from t have "rev t \<noteq> [] \<and> \<not> is_space (hd (rev t))"
    by (simp add: trimmed_def hd_rev)
  then have "dropWhile is_space (rev t) = rev t"
    by (cases "rev t") auto
  with a show ?thesis by (simp add: strip_def)
qed

lemma pieces_Nil [simp]: "pieces [] = []"
  by (simp add: pieces_def)

lemma pieces_Cons:
  "pieces (seg # segs) =
     (case seg_text seg of None \<Rightarrow> pieces segs
      | Some raw \<Rightarrow> if strip raw = [] then pieces segs else strip raw # pieces segs)"
  by (simp add: pieces_def split: option.splits)

lemma add_segment_cases:
  "add_segment full seg =
     (case seg_text seg of None \<Rightarrow> full
      | Some raw \<Rightarrow> if strip raw = [] then full
          else (if full \<noteq> [] \<and> \<not> startswith_punct (strip raw) then full @ '' '' else full) @ strip raw)"
  by (auto simp: add_segment_def Let_def split: option.splits)

lemma extract_loop_nonempty:
  "full \<noteq> [] \<Longrightarrow> extract_loop full segs = full @ join_rest (pieces segs)"
proof (induction segs arbitrary: full)
  case Nil
  then show ?case by simp
next
  case (Cons seg segs)
  show ?case
  proof (cases "seg_text seg")
    case None
    then show ?thesis using Cons by (simp add: add_segment_cases pieces_Cons)
  next
    case (Some raw)
    show ?thesis
    proof (cases "strip raw = []")
      case True
      then show ?thesis using Some Cons by (simp add: add_segment_cases pieces_Cons)
    next
      case False
      then have "add_segment full seg \<noteq> []" using Some by (simp add: add_segment_cases)
      from Cons.IH [OF this] show ?thesis
        using Some False Cons.prems by (simp add: add_segment_cases pieces_Cons)
    qed
  qed
qed

lemma extract_loop_join: "extract_loop [] segs = join_pieces (pieces segs)"
proof (induction segs)
  case Nil
  then show ?case by simp
next
  case (Cons seg segs)
  show ?case
  proof (cases "seg_text seg")
    case None
    then show ?thesis using Cons by (simp add: add_segment_cases pieces_Cons)
  next
    case (Some raw)
    show ?thesis
    proof (cases "strip raw = []")
      case True
      then show ?thesis using Some Cons by (simp add: add_segment_cases pieces_Cons)
    next
      case False
      then show ?thesis
        using Some extract_loop_nonempty [of "strip raw" segs]
        by (simp add: add_segment_cases pieces_Cons)
    qed
  qed
qed

lemma pieces_trimmed: "list_all trimmed (pieces segs)"
proof (induction segs)
  case Nil
  then show ?case by simp
next
  case (Cons seg segs)
  then show ?case
    by (auto simp: pieces_Cons strip_trimmed split: option.splits)
qed

lemma join_rest_last:
  "list_all trimmed ps \<Longrightarrow> ps \<noteq> [] \<Longrightarrow>
     join_rest ps \<noteq> [] \<and> last (join_rest ps) = last (last ps)"
proof (induction ps)
  case Nil
  then show ?case by simp
next
  case (Cons p ps)
  then show ?case by (cases ps) (auto simp: trimmed_def)
qed

lemma join_pieces_trimmed:
  "list_all trimmed ps \<Longrightarrow> ps \<noteq> [] \<Longrightarrow> trimmed (join_pieces ps)"
proof (cases ps)
  case Nil
  assume "ps \<noteq> []"
  with Nil show ?thesis by simp
next
  case (Cons p qs)
  assume a: "list_all trimmed ps"
  with Cons have p: "trimmed p" and qs: "list_all trimmed qs" by simp_all
  show ?thesis
  proof (cases qs)
    case Nil
    with Cons p show ?thesis by simp
  next
    case (Cons q rs)
    with join_rest_last [OF qs] have "join_rest qs \<noteq> []" and "last (join_rest qs) = last (last qs)"
      by simp_all
    moreover have "trimmed (last qs)" using qs Cons
      by (metis last_in_set list.distinct(1) list_all_iff)
    ultimately show ?thesis using p \<open>ps = p # qs\<close>
      by (simp add: trimmed_def)
  qed
qed

lemma extract_text_eq: "extract_text segs = assemble_spec segs"
proof (cases "pieces segs = []")
  case True
  then show ?thesis by (simp add: extract_text_def assemble_spec_def extract_loop_join)
next
  case False
  then have "trimmed (join_pieces (pieces segs))"
    using join_pieces_trimmed pieces_trimmed by blast
  then show ?thesis
    by (simp add: extract_text_def assemble_spec_def extract_loop_join strip_id)
qed


text \<open>
  C5: for every list of segments, \<open>_extract_text\<close> is the join of the non-empty
  trimmed segment texts, with one space before a text unless that text starts with one
  of \<open>. , ! ? ; :\<close> (\<open>assemble_spec\<close>); every joined text is trimmed, so a join never
  puts two spaces between two of them; the result neither starts nor ends with
  whitespace; and \<open>Hello\<close> followed by \<open>, world\<close> gives \<open>Hello, world\<close>.
\<close>

theorem extract_text_assembles:
  "extract_text segs = assemble_spec segs
   \<and> list_all trimmed (pieces segs)
   \<and> takeWhile is_space (extract_text segs) = []
   \<and> takeWhile is_space (rev (extract_text segs)) = []
   \<and> extract_text [segment_of ''Hello'', segment_of '', world''] = ''Hello, world''"
proof -
  have edges: "takeWhile is_space (extract_text segs) = []
      \<and> takeWhile is_space (rev (extract_text segs)) = []"
  proof (cases "pieces segs = []")
    case True
    then show ?thesis by (simp add: extract_text_eq assemble_spec_def)
  next
    case False
    then have "trimmed (join_pieces (pieces segs))"
      using join_pieces_trimmed pieces_trimmed by blast
    then have t: "trimmed (extract_text segs)"
      by (simp add: extract_text_eq assemble_spec_def)
    then have "takeWhile is_space (extract_text segs) = []"
      by (cases "extract_text segs") (simp_all add: trimmed_def)
    moreover from t have "rev (extract_text segs) \<noteq> [] \<and> \<not> is_space (hd (rev (extract_text segs)))"
      by (simp add: trimmed_def hd_rev)
    then have "takeWhile is_space (rev (extract_text segs)) = []"
      by (cases "rev (extract_text segs)") simp_all
    ultimately show ?thesis by simp
  qed
  have hello: "extract_text [segment_of ''Hello'', segment_of '', world''] = ''Hello, world''"
    by (simp add: extract_text_def add_segment_def strip_def is_space_def segment_of_def)
  show ?thesis
    using edges hello by (simp add: extract_text_eq pieces_trimmed)
qed

text \<open>C5, at a concrete list: surrounding whitespace goes, a segment without text and
  one of whitespace only are skipped, and \<open>!\<close> is attached without a space.\<close>

theorem extract_text_assembles_witness:
  "extract_text
     [segment_of ''  Hello '', segment_of '' world'', \<lparr>seg_text = None, seg_start = 0, seg_end = 0\<rparr>,
      segment_of ''   '', segment_of '' ! '']
     = assemble_spec
         [segment_of ''  Hello '', segment_of '' world'', \<lparr>seg_text = None, seg_start = 0, seg_end = 0\<rparr>,
          segment_of ''   '', segment_of '' ! '']
   \<and> assemble_spec
       [segment_of ''  Hello '', segment_of '' world'', \<lparr>seg_text = None, seg_start = 0, seg_end = 0\<rparr>,
        segment_of ''   '', segment_of '' ! '']
     = ''Hello world!''"
  using extract_text_assembles
    [of "[segment_of ''  Hello '', segment_of '' world'', \<lparr>seg_text = None, seg_start = 0, seg_end = 0\<rparr>,
          segment_of ''   '', segment_of '' ! '']"]
  by (simp add: assemble_spec_def pieces_def strip_def is_space_def segment_of_def)

section \<open>Model lifecycle\<close>

subsection \<open>What \<open>load_model\<close> calls and changes\<close>

lemma load_model_calls:
  "calls (snd (load_model env s sz)) = calls s @ load_calls env sz (device_to_use s)"
  by (auto simp: load_model_def load_model_try_def load_align_def record_call_def
        load_calls_def Let_def split: option.splits sum.splits prod.splits)

lemma load_model_device: "device (snd (load_model env s sz)) = device s"
  by (auto simp: load_model_def load_model_try_def load_align_def record_call_def
        Let_def split: option.splits sum.splits prod.splits)

lemma load_model_ok:
  "import_whisperx env = None \<Longrightarrow> wx_load_model env sz (device_to_use s) = Inr h \<Longrightarrow>
   fst (load_model env s sz) \<and> model (snd (load_model env s sz)) = Some h"
  by (auto simp: load_model_def load_model_try_def load_align_def record_call_def
        Let_def split: option.splits sum.splits prod.splits)

lemma load_model_import_fails:
  "import_whisperx env = Some e \<Longrightarrow> load_model env s sz = (False, s)"
  by (simp add: load_model_def load_model_try_def)

subsection \<open>What \<open>cleanup_models\<close> leaves\<close>

lemma clear_cache_frame:
  "model (snd (clear_cache env s)) = model s
   \<and> align_model (snd (clear_cache env s)) = align_model s
   \<and> metadata (snd (clear_cache env s)) = metadata s
   \<and> device (snd (clear_cache env s)) = device s"
  by (auto simp: clear_cache_def record_call_def Let_def split: option.splits sum.splits)

lemma cleanup_models_returns: "fst (cleanup_models env s) = None"
  by (simp add: cleanup_models_def split: prod.splits option.splits)

lemma cleanup_try_empty:
  "import_torch env = None \<Longrightarrow> is_empty (snd (cleanup_try env s))"
  by (auto simp: cleanup_try_def is_empty_def record_call_def Let_def clear_cache_frame
        split: option.splits)

lemma cleanup_models_snd: "snd (cleanup_models env s) = snd (cleanup_try env s)"
  by (simp add: cleanup_models_def split: prod.splits option.splits)

lemma cleanup_models_empty:
  "import_torch env = None \<Longrightarrow> is_empty (snd (cleanup_models env s))"
  by (simp add: cleanup_models_snd cleanup_try_empty)

lemma cleanup_models_device: "device (snd (cleanup_models env s)) = device s"
  by (auto simp: cleanup_models_snd cleanup_try_def record_call_def Let_def clear_cache_frame
        split: option.splits)

text \<open>When \<open>torch\<close> can be imported, cleanup ends with all three handles dropped,
  whatever fails afterwards, and so does a second cleanup.\<close>

lemma cleanup_models_twice:
  "import_torch env = None \<Longrightarrow> import_torch env' = None \<Longrightarrow>
   fst (cleanup_models env s) = None
   \<and> is_empty (snd (cleanup_models env s))
   \<and> fst (cleanup_models env' (snd (cleanup_models env s))) = None
   \<and> is_empty (snd (cleanup_models env' (snd (cleanup_models env s))))"
  by (simp add: cleanup_models_returns cleanup_models_empty)

text \<open>
  C1: \<open>cleanup_models\<close> never raises, but it does not always end in the EMPTY state.
  \<open>import torch\<close> is the first statement of its \<open>try\<close>; when that import raises,
  the handler logs and returns, and no handle is dropped. The world below has no
  \<open>torch\<close> and a working \<open>whisperx\<close>: construction falls back to \<open>cpu\<close>,
  \<open>load_model\<close> succeeds, and after \<open>cleanup_models\<close> the object still holds the
  main model, the alignment model and the metadata.
\<close>

theorem cleanup_models_torch_missing:
  "init_service (demo_env\<lparr>import_torch := Some (ImportError ''No module named torch'')\<rparr>)
     = Inr (fresh Cpu)
   \<and> fst (load_model (demo_env\<lparr>import_torch := Some (ImportError ''No module named torch'')\<rparr>)
          (fresh Cpu) ''base'')
   \<and> cleanup_models (demo_env\<lparr>import_torch := Some (ImportError ''No module named torch'')\<rparr>)
       (snd (load_model (demo_env\<lparr>import_torch := Some (ImportError ''No module named torch'')\<rparr>)
          (fresh Cpu) ''base''))
     = (None,
        \<lparr>model = Some (ModelHandle 1), align_model = Some (AlignHandle 2),
         metadata = Some (AlignMeta [(''language'', ''en'')]), device = Some Cpu,
         calls = [EvLoadModel ''base'' (Some Cpu), EvLoadAlign ''en'' (Some Cpu)]\<rparr>)
   \<and> \<not> is_empty
        (snd (cleanup_models
           (demo_env\<lparr>import_torch := Some (ImportError ''No module named torch'')\<rparr>)
           (snd (load_model
              (demo_env\<lparr>import_torch := Some (ImportError ''No module named torch'')\<rparr>)
              (fresh Cpu) ''base''))))"
  by (simp add: init_service_def setup_device_def setup_device_try_def
        load_model_def load_model_try_def load_align_def device_to_use_def record_call_def
        cleanup_models_def cleanup_try_def is_empty_def demo_env_def fresh_def Let_def)

section \<open>The transcription pipeline\<close>

lemma apply_alignment_frame:
  "apply_alignment env s audio result segs = (result', s') \<Longrightarrow>
   device s' = device s \<and> model s' = model s
   \<and> (\<exists>xs. calls s' = calls s @ xs \<and> list_all (\<lambda>ev. \<not> is_load_call ev) xs)"
  by (auto simp: apply_alignment_def record_call_def Let_def
        split: option.splits sum.splits if_splits)

lemma run_inference_frame:
  "run_inference env s audio = (r, s') \<Longrightarrow>
   device s' = device s
   \<and> (\<exists>xs. calls s' = calls s @ xs \<and> list_all (\<lambda>ev. \<not> is_load_call ev) xs)"
  apply (simp add: run_inference_def Let_def split: option.splits sum.splits if_splits prod.splits)
      apply (auto simp: record_call_def dest!: apply_alignment_frame)
  done

lemma transcribe_loaded_frame:
  "transcribe_loaded env s p = (r, s') \<Longrightarrow>
   device s' = device s
   \<and> (\<exists>xs. calls s' = calls s @ xs \<and> list_all (\<lambda>ev. \<not> is_load_call ev) xs)"
  apply (simp add: transcribe_loaded_def Let_def split: option.splits sum.splits if_splits)
      apply (auto simp: record_call_def dest!: run_inference_frame)
  done


lemma ensure_model_device: "device (snd (ensure_model env s)) = device s"
  by (simp add: ensure_model_def load_model_device)

lemma ensure_model_held: "model s \<noteq> None \<Longrightarrow> ensure_model env s = (True, s)"
  by (auto simp: ensure_model_def)

lemma ensured_ensure_model:
  "ensured env s h \<Longrightarrow>
   fst (ensure_model env s) \<and> model (snd (ensure_model env s)) = Some h"
  using load_model_ok [of env "''base''" s h]
  by (auto simp: ensured_def ensure_model_def)

lemma transcribe_audio_snd: "snd (transcribe_audio env s p) = snd (transcribe_try env s p)"
  by (simp add: transcribe_audio_def split: prod.splits sum.splits)

lemma transcribe_audio_fst:
  "fst (transcribe_audio env s p) =
     (case fst (transcribe_try env s p) of Inl e \<Rightarrow> Inr (on_exception e) | Inr r \<Rightarrow> Inr r)"
  by (simp add: transcribe_audio_def split: prod.splits sum.splits)

lemma transcribe_try_ready:
  "path_exists env p \<Longrightarrow> getsize env p = Inr n \<Longrightarrow> n \<noteq> 0 \<Longrightarrow> fst (ensure_model env s) \<Longrightarrow>
   transcribe_try env s p = transcribe_loaded env (snd (ensure_model env s)) p"
  by (cases "ensure_model env s") (simp add: transcribe_try_def)

lemma transcribe_try_device: "device (snd (transcribe_try env s p)) = device s"
proof -
  obtain ok s1 where e: "ensure_model env s = (ok, s1)" by (cases "ensure_model env s")
  then have d1: "device s1 = device s" using ensure_model_device [of env s] by simp
  obtain r s' where t: "transcribe_loaded env s1 p = (r, s')"
    by (cases "transcribe_loaded env s1 p")
  then have "device s' = device s1" using transcribe_loaded_frame by blast
  with d1 e t show ?thesis
    by (simp add: transcribe_try_def split: sum.splits)
qed

lemma transcribe_audio_device: "device (snd (transcribe_audio env s p)) = device s"
  by (simp add: transcribe_audio_snd transcribe_try_device)

lemma run_inference_reports:
  "run_inference env s audio = (Inr r, s') \<Longrightarrow> success r \<Longrightarrow> device_of r = device s"
  apply (simp add: run_inference_def Let_def split: option.splits sum.splits if_splits prod.splits)
  apply (auto simp: assemble_result_def record_call_def split: option.splits
        dest!: apply_alignment_frame)
  done

lemma transcribe_loaded_reports:
  "transcribe_loaded env s p = (Inr r, s') \<Longrightarrow> success r \<Longrightarrow> device_of r = device s"
  apply (simp add: transcribe_loaded_def Let_def split: option.splits sum.splits if_splits)
  apply (auto simp: record_call_def dest!: run_inference_reports)
  done

lemma transcribe_try_reports:
  "fst (transcribe_try env s p) = Inr r \<Longrightarrow> success r \<Longrightarrow> device_of r = device s"
proof -
  assume a: "fst (transcribe_try env s p) = Inr r" and b: "success r"
  obtain ok s1 where e: "ensure_model env s = (ok, s1)" by (cases "ensure_model env s")
  then have d1: "device s1 = device s" using ensure_model_device [of env s] by simp
  obtain r' s' where t: "transcribe_loaded env s1 p = (r', s')"
    by (cases "transcribe_loaded env s1 p")
  show ?thesis
    using a b e t d1 transcribe_loaded_reports [of env s1 p r s']
    by (auto simp: transcribe_try_def split: sum.splits if_splits)
qed

lemma transcribe_audio_reports:
  "fst (transcribe_audio env s p) = Inr r \<Longrightarrow> success r \<Longrightarrow> device_of r = device s"
proof -
  assume a: "fst (transcribe_audio env s p) = Inr r" and b: "success r"
  show ?thesis
  proof (cases "fst (transcribe_try env s p)")
    case (Inl e)
    with a have "r = on_exception e" by (simp add: transcribe_audio_fst)
    with b show ?thesis by (cases e) simp_all
  next
    case (Inr r')
    with a have "r' = r" by (simp add: transcribe_audio_fst)
    with Inr b show ?thesis using transcribe_try_reports by blast
  qed
qed

lemma transcribe_held_no_load:
  "model s \<noteq> None \<Longrightarrow>
   list_all (\<lambda>ev. \<not> is_load_call ev) (new_calls s (snd (transcribe_audio env s p)))"
proof -
  assume m: "model s \<noteq> None"
  obtain r s' where t: "transcribe_loaded env s p = (r, s')"
    by (cases "transcribe_loaded env s p")
  then obtain xs where "calls s' = calls s @ xs" "list_all (\<lambda>ev. \<not> is_load_call ev) xs"
    using transcribe_loaded_frame by blast
  then show ?thesis
    using m t
    by (auto simp: transcribe_audio_snd transcribe_try_def ensure_model_held new_calls_def
          split: sum.splits)
qed

lemma setup_device_sets:
  "setup_device env s = (None, s') \<Longrightarrow> device s' \<noteq> None"
  by (auto simp: setup_device_def setup_device_try_def
        split: option.splits sum.splits if_splits prod.splits exc.splits)

section \<open>Claims about loading\<close>

text \<open>
  C2, as stated, fails: with the session device \<open>mps\<close> (the secondary accelerator),
  \<open>load_model\<close> sets \<open>device_to_use\<close> to \<open>cpu\<close> before the main model is loaded,
  so the main model is requested on \<open>cpu\<close> and nothing is loaded on \<open>mps\<close>.
\<close>

theorem load_model_mps_main_model_on_cpu:
  "calls (snd (load_model demo_env (fresh Mps) ''base''))
     = [EvLoadModel ''base'' (Some Cpu), EvLoadAlign ''en'' (Some Cpu)]
   \<and> EvLoadModel ''base'' (Some Mps) \<notin> set (calls (snd (load_model demo_env (fresh Mps) ''base'')))"
  by (simp add: load_model_calls load_calls_def device_to_use_def demo_env_def fresh_def)

text \<open>
  C2, amended: when the session device is \<open>mps\<close>, \<open>load_model\<close> loads the main
  model and the alignment model on \<open>cpu\<close>; the device recorded in the object stays
  \<open>mps\<close>, and a successful transcription reports \<open>mps\<close>.
\<close>

theorem load_model_mps_loads_on_cpu:
  "device s = Some Mps \<Longrightarrow>
   calls (snd (load_model env s model_size)) = calls s @ load_calls env model_size (Some Cpu)
   \<and> device (snd (load_model env s model_size)) = Some Mps
   \<and> (fst (transcribe_audio env s p) = Inr r \<and> success r \<longrightarrow> device_of r = Some Mps)"
  using transcribe_audio_reports [of env s p r]
  by (simp add: load_model_calls load_model_device device_to_use_def)

text \<open>C2, witness: a new object on \<open>mps\<close> in the world where every call succeeds.\<close>

theorem load_model_mps_loads_on_cpu_witness:
  "device (fresh Mps) = Some Mps
   \<and> calls (snd (load_model demo_env (fresh Mps) ''base''))
       = [EvLoadModel ''base'' (Some Cpu), EvLoadAlign ''en'' (Some Cpu)]
   \<and> device (snd (load_model demo_env (fresh Mps) ''base'')) = Some Mps
   \<and> fst (transcribe_audio demo_env (fresh Mps) ''a.wav'')
       = Inr (Success ''Hello, world'' 2 ''en'' ''unknown'' (Some Mps))
   \<and> success (Success ''Hello, world'' 2 ''en'' ''unknown'' (Some Mps))
   \<and> device_of (Success ''Hello, world'' 2 ''en'' ''unknown'' (Some Mps)) = Some Mps"
proof -
  have t: "fst (transcribe_audio demo_env (fresh Mps) ''a.wav'')
       = Inr (Success ''Hello, world'' 2 ''en'' ''unknown'' (Some Mps))"
    by (simp add: transcribe_audio_def transcribe_try_def ensure_model_def load_model_def
          load_model_try_def load_align_def transcribe_loaded_def run_inference_def
          apply_alignment_def assemble_result_def get_optimal_batch_size_def
          device_to_use_def record_call_def extract_text_def add_segment_def strip_def
          is_space_def segment_of_def demo_env_def fresh_def Let_def)
  show ?thesis
    using t load_model_mps_loads_on_cpu [of "fresh Mps" demo_env "''base''" "''a.wav''"
        "Success ''Hello, world'' 2 ''en'' ''unknown'' (Some Mps)"]
    by (simp add: load_calls_def demo_env_def fresh_def)
qed

text \<open>
  C4, as stated, fails: \<open>load_model\<close> never looks at what is loaded. An object made
  READY by \<open>load_model("base")\<close> and asked for \<open>"base"\<close> again calls the loader
  again; asked for \<open>"large"\<close> it loads at once, with none of the calls that
  \<open>cleanup_models\<close> makes in the same world (\<open>gc.collect()\<close> is the first).
\<close>

theorem load_model_ready_reloads:
  "calls (snd (load_model demo_env (fresh Cpu) ''base''))
     = [EvLoadModel ''base'' (Some Cpu), EvLoadAlign ''en'' (Some Cpu)]
   \<and> calls (snd (load_model demo_env (snd (load_model demo_env (fresh Cpu) ''base'')) ''base''))
     = [EvLoadModel ''base'' (Some Cpu), EvLoadAlign ''en'' (Some Cpu),
        EvLoadModel ''base'' (Some Cpu), EvLoadAlign ''en'' (Some Cpu)]
   \<and> calls (snd (load_model demo_env (snd (load_model demo_env (fresh Cpu) ''base'')) ''large''))
     = [EvLoadModel ''base'' (Some Cpu), EvLoadAlign ''en'' (Some Cpu),
        EvLoadModel ''large'' (Some Cpu), EvLoadAlign ''en'' (Some Cpu)]
   \<and> calls (snd (cleanup_models demo_env (snd (load_model demo_env (fresh Cpu) ''base''))))
     = [EvLoadModel ''base'' (Some Cpu), EvLoadAlign ''en'' (Some Cpu), EvGcCollect]"
  by (simp add: load_model_def load_model_try_def load_align_def device_to_use_def
        record_call_def cleanup_models_def cleanup_try_def clear_cache_def
        demo_env_def fresh_def Let_def)

text \<open>
  C4, amended: \<open>load_model(model_size)\<close> never consults what the object holds. It
  calls the loader for the requested size whenever \<open>whisperx\<close> can be imported, and
  it releases nothing: when the import or the loader fails it returns False and the
  main model, the alignment model and the metadata are the ones held before; when the
  loader succeeds it returns True, the new main handle is stored, and the alignment
  handle and metadata are what \<open>load_align_model\<close> returns, or both null when that
  fails. Only \<open>transcribe_audio\<close> skips loading: with a model held it calls neither
  loader.
\<close>

theorem load_model_always_loads:
  "calls (snd (load_model env s model_size))
     = calls s @ load_calls env model_size (device_to_use s)
   \<and> (import_whisperx env = None \<and> wx_load_model env model_size (device_to_use s) = Inr h
        \<longrightarrow> load_calls env model_size (device_to_use s)
              = [EvLoadModel model_size (device_to_use s), EvLoadAlign ''en'' (device_to_use s)]
            \<and> fst (load_model env s model_size)
            \<and> model (snd (load_model env s model_size)) = Some h)
   \<and> (model s \<noteq> None
        \<longrightarrow> list_all (\<lambda>ev. \<not> is_load_call ev) (new_calls s (snd (transcribe_audio env s p))))
   \<and> (import_whisperx env \<noteq> None \<longrightarrow> load_model env s model_size = (False, s))
   \<and> (import_whisperx env = None \<and> isl (wx_load_model env model_size (device_to_use s))
        \<longrightarrow> load_model env s model_size
              = (False, s\<lparr>calls := calls s @ [EvLoadModel model_size (device_to_use s)]\<rparr>))
   \<and> (\<not> fst (load_model env s model_size)
        \<longrightarrow> model (snd (load_model env s model_size)) = model s
            \<and> align_model (snd (load_model env s model_size)) = align_model s
            \<and> metadata (snd (load_model env s model_size)) = metadata s)
   \<and> (import_whisperx env = None \<and> wx_load_model env model_size (device_to_use s) = Inr h
        \<and> wx_load_align_model env ''en'' (device_to_use s) = Inr (a, m)
        \<longrightarrow> load_model env s model_size
              = (True, s\<lparr>model := Some h, align_model := Some a, metadata := Some m,
                         calls := calls s @ [EvLoadModel model_size (device_to_use s),
                                             EvLoadAlign ''en'' (device_to_use s)]\<rparr>))
   \<and> (import_whisperx env = None \<and> wx_load_model env model_size (device_to_use s) = Inr h
        \<and> isl (wx_load_align_model env ''en'' (device_to_use s))
        \<longrightarrow> load_model env s model_size
              = (True, s\<lparr>model := Some h, align_model := None, metadata := None,
                         calls := calls s @ [EvLoadModel model_size (device_to_use s),
                                             EvLoadAlign ''en'' (device_to_use s)]\<rparr>))"
proof -
  have log: "calls (snd (load_model env s model_size))
      = calls s @ load_calls env model_size (device_to_use s)"
    by (rule load_model_calls)
  have ok: "import_whisperx env = None \<and> wx_load_model env model_size (device_to_use s) = Inr h
      \<longrightarrow> load_calls env model_size (device_to_use s)
            = [EvLoadModel model_size (device_to_use s), EvLoadAlign ''en'' (device_to_use s)]
          \<and> fst (load_model env s model_size)
          \<and> model (snd (load_model env s model_size)) = Some h"
    using load_model_ok [of env model_size s h] by (simp add: load_calls_def)
  have held: "model s \<noteq> None
      \<longrightarrow> list_all (\<lambda>ev. \<not> is_load_call ev) (new_calls s (snd (transcribe_audio env s p)))"
    using transcribe_held_no_load [of s env p] by simp
  have no_import: "import_whisperx env \<noteq> None \<longrightarrow> load_model env s model_size = (False, s)"
    using load_model_import_fails [of env _ s model_size] by auto
  have loader_fails:
    "import_whisperx env = None \<and> isl (wx_load_model env model_size (device_to_use s))
      \<longrightarrow> load_model env s model_size
            = (False, s\<lparr>calls := calls s @ [EvLoadModel model_size (device_to_use s)]\<rparr>)"
    by (auto simp: load_model_def load_model_try_def record_call_def Let_def isl_def)
  have kept: "\<not> fst (load_model env s model_size)
      \<longrightarrow> model (snd (load_model env s model_size)) = model s
          \<and> align_model (snd (load_model env s model_size)) = align_model s
          \<and> metadata (snd (load_model env s model_size)) = metadata s"
    by (auto simp: load_model_def load_model_try_def record_call_def Let_def
          split: option.splits sum.splits)
  have align_ok:
    "import_whisperx env = None \<and> wx_load_model env model_size (device_to_use s) = Inr h
      \<and> wx_load_align_model env ''en'' (device_to_use s) = Inr (a, m)
      \<longrightarrow> load_model env s model_size
            = (True, s\<lparr>model := Some h, align_model := Some a, metadata := Some m,
                       calls := calls s @ [EvLoadModel model_size (device_to_use s),
                                           EvLoadAlign ''en'' (device_to_use s)]\<rparr>)"
    by (simp add: load_model_def load_model_try_def load_align_def record_call_def Let_def)
  have align_fails:
    "import_whisperx env = None \<and> wx_load_model env model_size (device_to_use s) = Inr h
      \<and> isl (wx_load_align_model env ''en'' (device_to_use s))
      \<longrightarrow> load_model env s model_size
            = (True, s\<lparr>model := Some h, align_model := None, metadata := None,
                       calls := calls s @ [EvLoadModel model_size (device_to_use s),
                                           EvLoadAlign ''en'' (device_to_use s)]\<rparr>)"
    by (auto simp: load_model_def load_model_try_def load_align_def record_call_def Let_def
          isl_def)
  show ?thesis
    using log ok held no_import loader_fails kept align_ok align_fails by blast
qed

text \<open>C4, witness: an object that holds all three handles, in five worlds: every call
  succeeds (the held handle 1 is replaced by handle 7); the alignment loader raises;
  the loader raises; \<open>whisperx\<close> cannot be imported; and a transcription with the model
  held.\<close>

theorem load_model_always_loads_witness:
  "load_model (demo_env\<lparr>wx_load_model := \<lambda>model_size d. Inr (ModelHandle 7)\<rparr>)
       (holding Cpu) ''large''
     = (True, (holding Cpu)\<lparr>model := Some (ModelHandle 7),
                calls := [EvLoadModel ''large'' (Some Cpu), EvLoadAlign ''en'' (Some Cpu)]\<rparr>)
   \<and> load_model (demo_env\<lparr>wx_load_align_model := \<lambda>lang d. Inl (Exception ''no aligner'')\<rparr>)
       (holding Cpu) ''base''
     = (True, (holding Cpu)\<lparr>align_model := None, metadata := None,
                calls := [EvLoadModel ''base'' (Some Cpu), EvLoadAlign ''en'' (Some Cpu)]\<rparr>)
   \<and> load_model (demo_env\<lparr>wx_load_model := \<lambda>model_size d. Inl (Exception ''out of memory'')\<rparr>)
       (holding Cpu) ''large''
     = (False, (holding Cpu)\<lparr>calls := [EvLoadModel ''large'' (Some Cpu)]\<rparr>)
   \<and> load_model (demo_env\<lparr>import_whisperx := Some (ImportError ''No module named whisperx'')\<rparr>)
       (holding Cpu) ''base''
     = (False, holding Cpu)
   \<and> model (holding Cpu) \<noteq> None
   \<and> list_all (\<lambda>ev. \<not> is_load_call ev)
        (new_calls (holding Cpu) (snd (transcribe_audio demo_env (holding Cpu) ''a.wav'')))"
  using
    load_model_always_loads
      [of "demo_env\<lparr>wx_load_model := \<lambda>model_size d. Inr (ModelHandle 7)\<rparr>" "holding Cpu"
          "''large''" "ModelHandle 7" "''a.wav''" "AlignHandle 2"
          "AlignMeta [(''language'', ''en'')]"]
    load_model_always_loads
      [of "demo_env\<lparr>wx_load_align_model := \<lambda>lang d. Inl (Exception ''no aligner'')\<rparr>"
          "holding Cpu" "''base''" "ModelHandle 1" "''a.wav''"]
    load_model_always_loads
      [of "demo_env\<lparr>wx_load_model := \<lambda>model_size d. Inl (Exception ''out of memory'')\<rparr>"
          "holding Cpu" "''large''"]
    load_model_always_loads
      [of "demo_env\<lparr>import_whisperx := Some (ImportError ''No module named whisperx'')\<rparr>"
          "holding Cpu" "''base''"]
    load_model_always_loads [of demo_env "holding Cpu" "''base''" "ModelHandle 1" "''a.wav''"]
  by (simp add: device_to_use_def demo_env_def holding_def)

section \<open>Claims about transcription\<close>

text \<open>
  C6: for a path that does not exist, \<open>transcribe_audio\<close> returns the failure
  \<open>Audio file not found: <path>\<close> and leaves the object as it was: no model is
  loaded and no external call is recorded.
\<close>

theorem transcribe_missing_file:
  "\<not> path_exists env p \<Longrightarrow>
   transcribe_audio env s p = (Inr (Failure (''Audio file not found: '' @ p)), s)"
  by (simp add: transcribe_audio_def transcribe_try_def)

text \<open>C6, witness: \<open>nope.wav\<close> does not exist.\<close>

theorem transcribe_missing_file_witness:
  "\<not> path_exists demo_env ''nope.wav''
   \<and> transcribe_audio demo_env (fresh Cpu) ''nope.wav''
       = (Inr (Failure ''Audio file not found: nope.wav''), fresh Cpu)
   \<and> \<not> success (Failure ''Audio file not found: nope.wav'')"
  using transcribe_missing_file [of demo_env "''nope.wav''" "fresh Cpu"]
  by (simp add: demo_env_def)

text \<open>
  C7: for an existing file of size zero, \<open>transcribe_audio\<close> returns the failure
  \<open>Audio file is empty\<close> and leaves the object as it was: neither the loader nor
  the audio decoder has been called.
\<close>

theorem transcribe_empty_file:
  "path_exists env p \<Longrightarrow> getsize env p = Inr 0 \<Longrightarrow>
   transcribe_audio env s p = (Inr (Failure ''Audio file is empty''), s)"
  by (simp add: transcribe_audio_def transcribe_try_def)

text \<open>C7, witness: \<open>empty.wav\<close> exists and holds nothing.\<close>

theorem transcribe_empty_file_witness:
  "path_exists demo_env ''empty.wav'' \<and> getsize demo_env ''empty.wav'' = Inr 0
   \<and> transcribe_audio demo_env (fresh Cpu) ''empty.wav''
       = (Inr (Failure ''Audio file is empty''), fresh Cpu)
   \<and> \<not> success (Failure ''Audio file is empty'')"
  using transcribe_empty_file [of demo_env "''empty.wav''" "fresh Cpu"]
  by (simp add: demo_env_def)

text \<open>
  C8: when the input is valid, a model is held or gets loaded, the audio decodes to at
  least one sample, and \<open>model.transcribe\<close> returns no segments (an empty list, or no
  \<open>segments\<close> key), \<open>transcribe_audio\<close> returns the failure
  \<open>No speech detected in audio\<close>.
\<close>

theorem transcribe_no_segments:
  assumes "path_exists env p" and "getsize env p = Inr n" and "n \<noteq> 0"
    and "ensured env s h" and "import_whisperx env = None"
    and "wx_load_audio env p = Inr (Some audio)" and "audio \<noteq> []"
    and "model_transcribe env h audio (get_optimal_batch_size env s) = Inr result"
    and "out_segments result = None \<or> out_segments result = Some []"
  shows "fst (transcribe_audio env s p) = Inr (Failure ''No speech detected in audio'')"
proof -
  let ?s1 = "snd (ensure_model env s)"
  have ok: "fst (ensure_model env s)" and m: "model ?s1 = Some h"
    using ensured_ensure_model [OF assms(4)] by simp_all
  have b: "get_optimal_batch_size env (record_call (EvLoadAudio p) ?s1)
             = get_optimal_batch_size env s"
    by (rule batch_size_device) (simp add: record_call_def ensure_model_device)
  have "transcribe_try env s p = transcribe_loaded env ?s1 p"
    using assms(1-3) ok by (rule transcribe_try_ready)
  moreover have "fst (transcribe_loaded env ?s1 p) = Inr (Failure ''No speech detected in audio'')"
    using assms(5-9) m b
    by (auto simp: transcribe_loaded_def run_inference_def Let_def record_call_def)
  ultimately show ?thesis by (simp add: transcribe_audio_fst)
qed

text \<open>C8, witness: a new object, and a model that hears nothing in \<open>a.wav\<close>.\<close>

theorem transcribe_no_segments_witness:
  "path_exists demo_env ''a.wav'' \<and> getsize demo_env ''a.wav'' = Inr 1024 \<and> (1024::nat) \<noteq> 0
   \<and> ensured (demo_env\<lparr>model_transcribe := \<lambda>h audio batch_size.
          Inr \<lparr>out_segments = Some [], out_language = Some ''en''\<rparr>\<rparr>) (fresh Cpu) (ModelHandle 1)
   \<and> fst (transcribe_audio
         (demo_env\<lparr>model_transcribe := \<lambda>h audio batch_size.
            Inr \<lparr>out_segments = Some [], out_language = Some ''en''\<rparr>\<rparr>)
         (fresh Cpu) ''a.wav'')
       = Inr (Failure ''No speech detected in audio'')"
  using transcribe_no_segments
    [of "demo_env\<lparr>model_transcribe := \<lambda>h audio batch_size.
           Inr \<lparr>out_segments = Some [], out_language = Some ''en''\<rparr>\<rparr>"
        "''a.wav''" 1024 "fresh Cpu" "ModelHandle 1" "[1, 2, 3]"
        "\<lparr>out_segments = Some [], out_language = Some ''en''\<rparr>"]
  by (simp add: ensured_def device_to_use_def demo_env_def fresh_def)

text \<open>
  C9: \<open>__init__\<close> selects the device (a constructed object has one), and
  \<open>load_model\<close>, \<open>transcribe_audio\<close> and \<open>cleanup_models\<close> return the object with
  the device field it had; a successful transcription reports that device.
\<close>

theorem device_never_reassigned:
  "device (snd (load_model env s model_size)) = device s
   \<and> device (snd (transcribe_audio env s p)) = device s
   \<and> device (snd (cleanup_models env s)) = device s
   \<and> (fst (transcribe_audio env s p) = Inr r \<and> success r \<longrightarrow> device_of r = device s)
   \<and> (init_service env = Inr s0 \<longrightarrow> device s0 \<noteq> None)"
proof -
  have "init_service env = Inr s0 \<Longrightarrow> device s0 \<noteq> None"
    using setup_device_sets
    by (auto simp: init_service_def split: prod.splits option.splits)
  then show ?thesis
    using transcribe_audio_reports [of env s p r]
    by (simp add: load_model_device transcribe_audio_device cleanup_models_device)
qed

text \<open>C9, witness: construction in a world without accelerator selects \<open>cpu\<close>, and
  the three operations keep it.\<close>

theorem device_never_reassigned_witness:
  "init_service demo_env = Inr (fresh Cpu)
   \<and> device (fresh Cpu) = Some Cpu
   \<and> device (snd (load_model demo_env (fresh Cpu) ''base'')) = Some Cpu
   \<and> device (snd (transcribe_audio demo_env (fresh Cpu) ''a.wav'')) = Some Cpu
   \<and> device (snd (cleanup_models demo_env (fresh Cpu))) = Some Cpu
   \<and> fst (transcribe_audio demo_env (fresh Cpu) ''a.wav'')
       = Inr (Success ''Hello, world'' 2 ''en'' ''unknown'' (Some Cpu))
   \<and> success (Success ''Hello, world'' 2 ''en'' ''unknown'' (Some Cpu))"
proof -
  have i: "init_service demo_env = Inr (fresh Cpu)"
    by (simp add: init_service_def setup_device_def setup_device_try_def demo_env_def fresh_def)
  have t: "fst (transcribe_audio demo_env (fresh Cpu) ''a.wav'')
       = Inr (Success ''Hello, world'' 2 ''en'' ''unknown'' (Some Cpu))"
    by (simp add: transcribe_audio_def transcribe_try_def ensure_model_def load_model_def
          load_model_try_def load_align_def transcribe_loaded_def run_inference_def
          apply_alignment_def assemble_result_def get_optimal_batch_size_def
          device_to_use_def record_call_def extract_text_def add_segment_def strip_def
          is_space_def segment_of_def demo_env_def fresh_def Let_def)
  show ?thesis
    using i t device_never_reassigned [of demo_env "fresh Cpu" "''base''" "''a.wav''"
        "Success ''Hello, world'' 2 ''en'' ''unknown'' (Some Cpu)" "fresh Cpu"]
    by (simp add: fresh_def)
qed

section \<open>Exceptions inside \<open>transcribe_audio\<close>\<close>

lemma valid_input_size:
  "valid_input env p \<Longrightarrow> path_exists env p \<and> (\<exists>n. getsize env p = Inr n \<and> n \<noteq> 0)"
  by (auto simp: valid_input_def split: sum.splits)

lemma transcribe_try_valid:
  "valid_input env p \<Longrightarrow> fst (ensure_model env s) \<Longrightarrow>
   transcribe_try env s p = transcribe_loaded env (snd (ensure_model env s)) p"
  using transcribe_try_ready valid_input_size by blast

lemma transcribe_audio_returns: "\<exists>r. fst (transcribe_audio env s p) = Inr r"
  by (simp add: transcribe_audio_fst split: sum.splits)

lemma transcribe_getsize_raises:
  "path_exists env p \<Longrightarrow> getsize env p = Inl e \<Longrightarrow>
   fst (transcribe_audio env s p) = Inr (on_exception e)"
  by (simp add: transcribe_audio_fst transcribe_try_def)

lemma transcribe_load_fails:
  "valid_input env p \<Longrightarrow> model s = None \<Longrightarrow>
   import_whisperx env \<noteq> None \<or> isl (wx_load_model env ''base'' (device_to_use s)) \<Longrightarrow>
   fst (transcribe_audio env s p) = Inr (Failure ''Failed to load WhisperX model'')"
  by (auto simp: valid_input_def transcribe_audio_fst transcribe_try_def ensure_model_def
        load_model_def load_model_try_def Let_def split: option.splits sum.splits prod.splits)

lemma transcribe_import_raises:
  "valid_input env p \<Longrightarrow> model s \<noteq> None \<Longrightarrow> import_whisperx env = Some e \<Longrightarrow>
   fst (transcribe_audio env s p) = Inr (on_exception e)"
  by (simp add: transcribe_audio_fst transcribe_try_valid ensure_model_held
        transcribe_loaded_def)

lemma transcribe_load_audio_raises:
  assumes "valid_input env p" and "ensured env s h" and "import_whisperx env = None"
    and "wx_load_audio env p = Inl e"
  shows "fst (transcribe_audio env s p) = Inr (on_exception e)"
proof -
  have "fst (ensure_model env s)"
    using ensured_ensure_model [OF assms(2)] by simp
  with assms(1) have "transcribe_try env s p = transcribe_loaded env (snd (ensure_model env s)) p"
    by (rule transcribe_try_valid)
  then show ?thesis
    using assms(3,4) by (simp add: transcribe_audio_fst transcribe_loaded_def Let_def)
qed

lemma transcribe_inference_raises:
  assumes "valid_input env p" and "ensured env s h" and "import_whisperx env = None"
    and "wx_load_audio env p = Inr (Some audio)" and "audio \<noteq> []"
    and "model_transcribe env h audio (get_optimal_batch_size env s) = Inl e"
  shows "fst (transcribe_audio env s p) = Inr (on_exception e)"
proof -
  let ?s1 = "snd (ensure_model env s)"
  have ok: "fst (ensure_model env s)" and m: "model ?s1 = Some h"
    using ensured_ensure_model [OF assms(2)] by simp_all
  have b: "get_optimal_batch_size env (record_call (EvLoadAudio p) ?s1)
             = get_optimal_batch_size env s"
    by (rule batch_size_device) (simp add: record_call_def ensure_model_device)
  have "transcribe_try env s p = transcribe_loaded env ?s1 p"
    using assms(1) ok by (rule transcribe_try_valid)
  moreover have "fst (transcribe_loaded env ?s1 p) = Inl e"
    using assms(3-6) m b
    by (simp add: transcribe_loaded_def run_inference_def Let_def record_call_def)
  ultimately show ?thesis by (simp add: transcribe_audio_fst)
qed

lemma transcribe_alignment_raises:
  assumes "valid_input env p" and "model s = Some h" and "import_whisperx env = None"
    and "wx_load_audio env p = Inr (Some audio)" and "audio \<noteq> []"
    and "model_transcribe env h audio (get_optimal_batch_size env s) = Inr result"
    and "out_segments result = Some segs" and "segs \<noteq> []"
    and "align_model s = Some a" and "metadata s = Some m"
    and "isl (wx_align env segs a m audio (device s))"
  shows "fst (transcribe_audio env s p)
           = Inr (Success (extract_text segs) (length segs)
                    (case out_language result of None \<Rightarrow> ''en'' | Some l \<Rightarrow> l)
                    (case model_size_attr env h of None \<Rightarrow> ''unknown'' | Some z \<Rightarrow> z)
                    (device s))"
proof -
  have b: "get_optimal_batch_size env (record_call (EvLoadAudio p) s)
             = get_optimal_batch_size env s"
    by (rule batch_size_device) (simp add: record_call_def)
  have "transcribe_try env s p = transcribe_loaded env s p"
    using assms(1,2) transcribe_try_valid [of env p s] by (simp add: ensure_model_held)
  moreover have "fst (transcribe_loaded env s p)
           = Inr (Success (extract_text segs) (length segs)
                    (case out_language result of None \<Rightarrow> ''en'' | Some l \<Rightarrow> l)
                    (case model_size_attr env h of None \<Rightarrow> ''unknown'' | Some z \<Rightarrow> z)
                    (device s))"
    using assms(2-11) b
    by (auto simp: transcribe_loaded_def run_inference_def apply_alignment_def
          assemble_result_def Let_def record_call_def split: sum.splits)
  ultimately show ?thesis by (simp add: transcribe_audio_fst)
qed

text \<open>
  C10, as stated, fails twice. An ImportError of \<open>import whisperx\<close> with no model
  held is raised inside \<open>load_model\<close>, whose own handler returns False: the error is
  \<open>Failed to load WhisperX model\<close>, not the not-installed one. And a fault of
  \<open>whisperx.align\<close> is caught by the inner handler: the result has success=true.
\<close>

theorem transcribe_audio_inner_handlers:
  "fst (transcribe_audio
          (demo_env\<lparr>import_whisperx := Some (ImportError ''No module named whisperx'')\<rparr>)
          (fresh Cpu) ''a.wav'')
     = Inr (Failure ''Failed to load WhisperX model'')
   \<and> fst (transcribe_audio
          (demo_env\<lparr>wx_align := \<lambda>segs a m audio d. Inl (Exception ''alignment failed'')\<rparr>)
          (fresh Cpu) ''a.wav'')
     = Inr (Success ''Hello, world'' 2 ''en'' ''unknown'' (Some Cpu))"
  by (simp add: transcribe_audio_def transcribe_try_def ensure_model_def load_model_def
          load_model_try_def load_align_def transcribe_loaded_def run_inference_def
          apply_alignment_def assemble_result_def get_optimal_batch_size_def
          device_to_use_def record_call_def extract_text_def add_segment_def strip_def
          is_space_def segment_of_def demo_env_def fresh_def Let_def)

text \<open>
  C10, amended: for every path and object, and every world in which whatever a library
  call raises is an instance of \<open>Exception\<close>, \<open>transcribe_audio\<close> returns a result
  record and propagates no exception. (\<open>KeyboardInterrupt\<close> and \<open>SystemExit\<close> are
  not caught by \<open>except Exception\<close> and do propagate; they are outside the model.)
  An exception raised by \<open>os.path.getsize\<close>, by the \<open>import whisperx\<close> of
  \<open>transcribe_audio\<close> itself, by \<open>whisperx.load_audio\<close> or by \<open>model.transcribe\<close>
  reaches the outer handlers: an ImportError gives success=false with
  \<open>WhisperX not properly installed\<close>, any other exception gives success=false with
  \<open>Transcription failed: \<close> followed by its message. A fault while the model is
  loaded gives success=false with \<open>Failed to load WhisperX model\<close>, and a fault of the
  alignment step is absorbed: the unaligned result is returned with success=true.
\<close>

theorem transcribe_audio_returns_result:
  "(\<exists>r. fst (transcribe_audio env s p) = Inr r)
   \<and> on_exception (ImportError msg) = Failure ''WhisperX not properly installed''
   \<and> on_exception (Exception msg) = Failure (''Transcription failed: '' @ msg)
   \<and> (path_exists env p \<and> getsize env p = Inl e
        \<longrightarrow> fst (transcribe_audio env s p) = Inr (on_exception e))
   \<and> (valid_input env p \<and> model s \<noteq> None \<and> import_whisperx env = Some e
        \<longrightarrow> fst (transcribe_audio env s p) = Inr (on_exception e))
   \<and> (valid_input env p \<and> ensured env s h \<and> import_whisperx env = None
        \<and> wx_load_audio env p = Inl e
        \<longrightarrow> fst (transcribe_audio env s p) = Inr (on_exception e))
   \<and> (valid_input env p \<and> ensured env s h \<and> import_whisperx env = None
        \<and> wx_load_audio env p = Inr (Some audio) \<and> audio \<noteq> []
        \<and> model_transcribe env h audio (get_optimal_batch_size env s) = Inl e
        \<longrightarrow> fst (transcribe_audio env s p) = Inr (on_exception e))
   \<and> (valid_input env p \<and> model s = None
        \<and> (import_whisperx env \<noteq> None \<or> isl (wx_load_model env ''base'' (device_to_use s)))
        \<longrightarrow> fst (transcribe_audio env s p) = Inr (Failure ''Failed to load WhisperX model''))
   \<and> (valid_input env p \<and> model s = Some h \<and> import_whisperx env = None
        \<and> wx_load_audio env p = Inr (Some audio) \<and> audio \<noteq> []
        \<and> model_transcribe env h audio (get_optimal_batch_size env s) = Inr result
        \<and> out_segments result = Some segs \<and> segs \<noteq> []
        \<and> align_model s = Some a \<and> metadata s = Some m
        \<and> isl (wx_align env segs a m audio (device s))
        \<longrightarrow> fst (transcribe_audio env s p)
              = Inr (Success (extract_text segs) (length segs)
                       (case out_language result of None \<Rightarrow> ''en'' | Some l \<Rightarrow> l)
                       (case model_size_attr env h of None \<Rightarrow> ''unknown'' | Some z \<Rightarrow> z)
                       (device s)))"
  using transcribe_audio_returns [of env s p]
    transcribe_getsize_raises [of env p e s]
    transcribe_import_raises [of env p s e]
    transcribe_load_audio_raises [of env p s h e]
    transcribe_inference_raises [of env p s h audio e]
    transcribe_load_fails [of env p s]
    transcribe_alignment_raises [of env p s h audio result segs a m]
  by simp

text \<open>C10, witness: one world for each fault, in the order of the theorem: the size
  cannot be read, \<open>whisperx\<close> cannot be imported (a model being held), the decoder
  raises, the model raises, \<open>whisperx\<close> cannot be imported (no model held), the
  aligner raises.\<close>

theorem transcribe_audio_returns_result_witness:
  "fst (transcribe_audio
          (demo_env\<lparr>getsize := \<lambda>p. Inl (Exception ''Permission denied'')\<rparr>)
          (fresh Cpu) ''a.wav'')
     = Inr (Failure ''Transcription failed: Permission denied'')
   \<and> fst (transcribe_audio
          (demo_env\<lparr>import_whisperx := Some (ImportError ''No module named whisperx'')\<rparr>)
          (holding Cpu) ''a.wav'')
     = Inr (Failure ''WhisperX not properly installed'')
   \<and> fst (transcribe_audio
          (demo_env\<lparr>wx_load_audio := \<lambda>p. Inl (Exception ''ffmpeg not found'')\<rparr>)
          (fresh Cpu) ''a.wav'')
     = Inr (Failure ''Transcription failed: ffmpeg not found'')
   \<and> fst (transcribe_audio
          (demo_env\<lparr>model_transcribe := \<lambda>h audio batch_size. Inl (Exception ''out of memory'')\<rparr>)
          (fresh Cpu) ''a.wav'')
     = Inr (Failure ''Transcription failed: out of memory'')
   \<and> fst (transcribe_audio
          (demo_env\<lparr>import_whisperx := Some (ImportError ''No module named whisperx'')\<rparr>)
          (fresh Cpu) ''a.wav'')
     = Inr (Failure ''Failed to load WhisperX model'')
   \<and> fst (transcribe_audio
          (demo_env\<lparr>wx_align := \<lambda>segs a m audio d. Inl (Exception ''alignment failed'')\<rparr>)
          (holding Cpu) ''a.wav'')
     = Inr (Success ''Hello, world'' 2 ''en'' ''unknown'' (Some Cpu))"
proof -
  have hello: "extract_text [segment_of ''Hello'', segment_of '', world''] = ''Hello, world''"
    by (simp add: extract_text_def add_segment_def strip_def is_space_def segment_of_def)
  show ?thesis
    using
      transcribe_audio_returns_result
        [of "demo_env\<lparr>getsize := \<lambda>p. Inl (Exception ''Permission denied'')\<rparr>"
            "fresh Cpu" "''a.wav''" "''''" "Exception ''Permission denied''"]
      transcribe_audio_returns_result
        [of "demo_env\<lparr>import_whisperx := Some (ImportError ''No module named whisperx'')\<rparr>"
            "holding Cpu" "''a.wav''" "''''" "ImportError ''No module named whisperx''"]
      transcribe_audio_returns_result
        [of "demo_env\<lparr>wx_load_audio := \<lambda>p. Inl (Exception ''ffmpeg not found'')\<rparr>"
            "fresh Cpu" "''a.wav''" "''''" "Exception ''ffmpeg not found''" "ModelHandle 1"]
      transcribe_audio_returns_result
        [of "demo_env\<lparr>model_transcribe := \<lambda>h audio batch_size. Inl (Exception ''out of memory'')\<rparr>"
            "fresh Cpu" "''a.wav''" "''''" "Exception ''out of memory''" "ModelHandle 1"
            "[1, 2, 3]"]
      transcribe_audio_returns_result
        [of "demo_env\<lparr>import_whisperx := Some (ImportError ''No module named whisperx'')\<rparr>"
            "fresh Cpu" "''a.wav''"]
      transcribe_audio_returns_result
        [of "demo_env\<lparr>wx_align := \<lambda>segs a m audio d. Inl (Exception ''alignment failed'')\<rparr>"
            "holding Cpu" "''a.wav''" "''''" "Exception ''x''" "ModelHandle 1" "[1, 2, 3]"
            "\<lparr>out_segments = Some [segment_of ''Hello'', segment_of '', world''],
              out_language = Some ''en''\<rparr>"
            "[segment_of ''Hello'', segment_of '', world'']"
            "AlignHandle 2" "AlignMeta [(''language'', ''en'')]"]
    by (simp add: hello valid_input_def ensured_def device_to_use_def
          get_optimal_batch_size_def demo_env_def fresh_def holding_def)
qed

end
